theory Spec2Isabelle
  imports Main
begin

section \<open>The platform the example runs on\<close>

text \<open>
  The two variants of \<^verbatim>\<open>App.tsx\<close> are glue around three services of the host: promises,
  one-shot timers and the event registry of the Deephaven client. Their contracts are
  written out here once; everything after this section follows the source line by line.
\<close>

subsection \<open>Errors\<close>

text \<open>
  \<^verbatim>\<open>new Error(message)\<close> is thrown by the source itself, a \<^verbatim>\<open>TypeError\<close> by the
  runtime (reading a property of \<^verbatim>\<open>undefined\<close>, an unparsable URL), and
  \<^verbatim>\<open>Remote\<close> stands for a rejection coming from the server API.
\<close>

datatype error = Error string | TypeError string | Remote string

text \<open>The template literal \<^verbatim>\<open>`${e}`\<close> that \<^verbatim>\<open>initApp\<close> shows to the user.\<close>

fun error_text :: "error \<Rightarrow> string" where
  "error_text (Error m) = ''Error: '' @ m"
| "error_text (TypeError m) = ''TypeError: '' @ m"
| "error_text (Remote m) = m"

subsection \<open>Promises\<close>

text \<open>
  A promise is settled at most once: \<^verbatim>\<open>resolve\<close> and \<^verbatim>\<open>reject\<close> act on a pending
  promise only and are silently ignored afterwards. \<open>Resolved v\<close> keeps the value that the
  first call of \<^verbatim>\<open>resolve\<close> was given; where that value is itself a request to the server,
  the promise follows it from then on.
\<close>

datatype 'a promise = Pending | Resolved 'a | Rejected error

fun resolve :: "'a \<Rightarrow> 'a promise \<Rightarrow> 'a promise" where
  "resolve v Pending = Resolved v"
| "resolve v p = p"

fun reject :: "error \<Rightarrow> 'a promise \<Rightarrow> 'a promise" where
  "reject e Pending = Rejected e"
| "reject e p = p"

subsection \<open>Timers\<close>

text \<open>
  \<^verbatim>\<open>setTimeout(f, d)\<close> called at time 0 arms a timer due at \<open>d\<close> milliseconds;
  \<^verbatim>\<open>clearTimeout\<close> disarms an armed timer and does nothing to one that has fired or
  was cleared before.
\<close>

datatype timer = Unset | Armed nat | Cleared | Fired

fun clearTimeout :: "timer \<Rightarrow> timer" where
  "clearTimeout (Armed d) = Cleared"
| "clearTimeout t = t"

text \<open>
  Whether the task of a timer due at \<open>d\<close> runs before the task of an external event
  arriving at \<open>t\<close>. The host orders two tasks that become ready at the same instant as it
  likes; \<open>tie\<close> is that choice (\<open>True\<close>: the timer goes first).
\<close>

fun timer_first :: "bool \<Rightarrow> timer \<Rightarrow> nat \<Rightarrow> bool" where
  "timer_first tie (Armed d) t = (d < t \<or> (tie \<and> d = t))"
| "timer_first tie tm t = False"

fun armed :: "timer \<Rightarrow> bool" where
  "armed (Armed d) = True"
| "armed tm = False"

subsection \<open>The event loop\<close>

text \<open>
  Callbacks run to completion, one task at a time. The loop is given the external events
  with their arrival times in milliseconds since the promise executor ran, in ascending
  order; before each event it runs the timer callback if the timer's task comes first, and
  after the last event time runs on, so that a timer still armed fires.
\<close>

fun event_loop ::
  "bool \<Rightarrow> ('s \<Rightarrow> timer) \<Rightarrow> ('s \<Rightarrow> 's) \<Rightarrow> ('e \<Rightarrow> 's \<Rightarrow> 's) \<Rightarrow> (nat \<times> 'e) list \<Rightarrow> 's \<Rightarrow> 's" where
  "event_loop tie tm fire deliver [] s = (if armed (tm s) then fire s else s)"
| "event_loop tie tm fire deliver ((t, e) # es) s =
     event_loop tie tm fire deliver es
       (deliver e (if timer_first tie (tm s) t then fire s else s))"

subsection \<open>What a pending wait owns\<close>

text \<open>
  Both \<^verbatim>\<open>clientConnected\<close> and \<^verbatim>\<open>loadTable\<close> create a promise, arm a timer and register
  one listener on the client. \<open>listening\<close> says that the client still has the listener
  registered. The three counters record how often the listener ran and how often the
  promise's \<^verbatim>\<open>resolve\<close> and \<^verbatim>\<open>reject\<close> functions were called.
\<close>

record 'a pending =
  promise :: "'a promise"
  timer :: timer
  listening :: bool
  listener_calls :: nat
  resolve_calls :: nat
  reject_calls :: nat

section \<open>Locate-existing: \<^verbatim>\<open>loadTable\<close>\<close>

text \<open>
  A query (a group of tables) as the client announces it: its name, and a serial number
  standing for the identity of the object, so that two queries of the same name can be
  told apart. \<^verbatim>\<open>query.getTable(tableName)\<close> is the request for the named table of that
  query; the promise of \<^verbatim>\<open>loadTable\<close> is resolved with it.
\<close>

datatype query = Query (name: string) (serial: nat)

datatype table_request = GetTable query string

text \<open>
  The executor's local state on top of the promise, the timer (\<^verbatim>\<open>timeout\<close> in the source)
  and the registration: \<open>removeListener\<close> tells whether the variable of that name has been
  assigned the remover returned by \<^verbatim>\<open>client.addEventListener\<close>; calling it while it is
  still undefined is a \<^verbatim>\<open>TypeError\<close> that nobody catches, counted in \<open>uncaught\<close>.
  \<open>disconnect_calls\<close> counts \<^verbatim>\<open>client.disconnect()\<close>.
\<close>

record resolution = "table_request pending" +
  removeListener :: bool
  removeListener_calls :: nat
  uncaught :: nat
  disconnect_calls :: nat

text \<open>
  \<^verbatim>\<open>removeListener()\<close>. The remover takes the listener out of the client's registry;
  taking out a listener that is no longer there changes nothing.
\<close>

definition call_removeListener :: "resolution \<Rightarrow> resolution" where
  "call_removeListener s =
     (if removeListener s
      then s\<lparr>listening := False, removeListener_calls := removeListener_calls s + 1\<rparr>
      else s\<lparr>uncaught := uncaught s + 1\<rparr>)"

text \<open>The callback given to \<^verbatim>\<open>setTimeout(..., 10000)\<close>.\<close>

definition timeout_callback :: "string \<Rightarrow> resolution \<Rightarrow> resolution" where
  "timeout_callback queryName s =
     call_removeListener
       (s\<lparr>timer := Fired,
          promise := reject (Error (''Query not found, '' @ queryName)) (promise s),
          reject_calls := reject_calls s + 1\<rparr>)"

definition resolveIfQueryFound :: "string \<Rightarrow> string \<Rightarrow> query list \<Rightarrow> resolution \<Rightarrow> resolution" where
  "resolveIfQueryFound queryName tableName queries s =
     (case find (\<lambda>query. name query = queryName) queries of
        None \<Rightarrow> s
      | Some matchingQuery \<Rightarrow>
          call_removeListener
            (s\<lparr>promise := resolve (GetTable matchingQuery tableName) (promise s),
               resolve_calls := resolve_calls s + 1,
               timer := clearTimeout (timer s)\<rparr>))"

text \<open>\<^verbatim>\<open>listener(event)\<close>, with \<open>detail\<close> for \<^verbatim>\<open>event.detail\<close>.\<close>

definition listener :: "string \<Rightarrow> string \<Rightarrow> query \<Rightarrow> resolution \<Rightarrow> resolution" where
  "listener queryName tableName detail s =
     (let addedQueries = [detail]
      in resolveIfQueryFound queryName tableName addedQueries
           (s\<lparr>listener_calls := listener_calls s + 1\<rparr>))"

text \<open>
  The executor in its two halves. \<open>loadTable_register\<close> is everything up to and including
  \<^verbatim>\<open>removeListener = client.addEventListener(EVENT_CONFIG_ADDED, listener)\<close>;
  \<open>loadTable_scan\<close> is \<^verbatim>\<open>resolveIfQueryFound(client.getKnownConfigs())\<close>, with the
  snapshot that \<^verbatim>\<open>getKnownConfigs\<close> returns as its argument.
\<close>

definition loadTable_register :: resolution where
  "loadTable_register =
     \<lparr>promise = Pending, timer = Armed 10000, listening = True,
      listener_calls = 0, resolve_calls = 0, reject_calls = 0,
      removeListener = True, removeListener_calls = 0, uncaught = 0, disconnect_calls = 0\<rparr>"

definition loadTable_scan :: "string \<Rightarrow> string \<Rightarrow> query list \<Rightarrow> resolution \<Rightarrow> resolution" where
  "loadTable_scan queryName tableName initialQueries s =
     resolveIfQueryFound queryName tableName initialQueries s"

definition loadTable :: "query list \<Rightarrow> string \<Rightarrow> string \<Rightarrow> resolution" where
  "loadTable knownConfigs queryName tableName =
     loadTable_scan queryName tableName knownConfigs loadTable_register"

text \<open>
  \<^verbatim>\<open>client.disconnect()\<close>, as far as the attempt can tell: the call is counted, and the
  promise, the timer and the registration of the listener are left as they are.
\<close>

definition disconnect :: "resolution \<Rightarrow> resolution" where
  "disconnect s = s\<lparr>disconnect_calls := disconnect_calls s + 1\<rparr>"

text \<open>
  What reaches a pending attempt from outside: the client announces a query
  (\<^verbatim>\<open>EVENT_CONFIG_ADDED\<close>, delivered to the listener as long as it is registered), or the
  view is unmounted and its cleanup calls \<^verbatim>\<open>client?.disconnect()\<close>. The cleanup touches
  neither the timer nor the listener of the attempt, and announcements that arrive after
  it are still handed to a registered listener. (The enterprise variant has no cleanup:
  its runs are the ones without \<open>Unmount\<close>.)
\<close>

datatype app_event = ConfigAdded query | Unmount

fun deliver :: "string \<Rightarrow> string \<Rightarrow> app_event \<Rightarrow> resolution \<Rightarrow> resolution" where
  "deliver queryName tableName (ConfigAdded q) s =
     (if listening s then listener queryName tableName q s else s)"
| "deliver queryName tableName Unmount s = disconnect s"

definition loadTable_run ::
  "bool \<Rightarrow> query list \<Rightarrow> string \<Rightarrow> string \<Rightarrow> (nat \<times> app_event) list \<Rightarrow> resolution" where
  "loadTable_run tie knownConfigs queryName tableName events =
     event_loop tie timer (timeout_callback queryName) (deliver queryName tableName) events
       (loadTable knownConfigs queryName tableName)"

text \<open>
  The same executor with the client announcing \<open>announced\<close>, one query after the other,
  between the registration and the reading of the snapshot. Callbacks run to completion, so
  the host never does this to the source as it stands; it is the schedule that the order of
  the two statements is there to survive.
\<close>

definition loadTable_interleaved ::
  "string \<Rightarrow> string \<Rightarrow> query list \<Rightarrow> query list \<Rightarrow> resolution" where
  "loadTable_interleaved queryName tableName announced snapshot =
     loadTable_scan queryName tableName snapshot
       (fold (\<lambda>q. deliver queryName tableName (ConfigAdded q)) announced loadTable_register)"

text \<open>
  \<^verbatim>\<open>clearTimeout(timeout)\<close> on the attempt's state, for invoking the disposal once more
  after an exit path has run it.
\<close>

definition clear_timer :: "resolution \<Rightarrow> resolution" where
  "clear_timer s = s\<lparr>timer := clearTimeout (timer s)\<rparr>"

text \<open>Two states that differ at most in the counts of disposals and disconnects.\<close>

definition same_outcome :: "resolution \<Rightarrow> resolution \<Rightarrow> bool" where
  "same_outcome s s' \<longleftrightarrow>
     promise s' = promise s \<and> timer s' = timer s \<and> listening s' = listening s \<and>
     listener_calls s' = listener_calls s \<and> resolve_calls s' = resolve_calls s \<and>
     reject_calls s' = reject_calls s \<and> uncaught s' = uncaught s"

text \<open>
  The two shapes an attempt is ever in: nothing has happened yet, or exactly one exit path
  has run and has disposed of the other.
\<close>

definition pending_shape :: "resolution \<Rightarrow> bool" where
  "pending_shape s \<longleftrightarrow>
     promise s = Pending \<and> timer s = Armed 10000 \<and> listening s \<and> removeListener s \<and>
     uncaught s = 0 \<and> resolve_calls s = 0 \<and> reject_calls s = 0 \<and> removeListener_calls s = 0"

definition done_shape :: "resolution \<Rightarrow> bool" where
  "done_shape s \<longleftrightarrow>
     promise s \<noteq> Pending \<and> \<not> armed (timer s) \<and> \<not> listening s \<and> removeListener s \<and>
     uncaught s = 0 \<and> resolve_calls s + reject_calls s = 1 \<and> removeListener_calls s = 1"

section \<open>The connect wait: \<^verbatim>\<open>clientConnected\<close>\<close>

definition CLIENT_TIMEOUT :: nat where
  "CLIENT_TIMEOUT = 60000"

datatype client_signal = Connect

text \<open>The callback given to \<^verbatim>\<open>setTimeout(..., CLIENT_TIMEOUT)\<close>.\<close>

definition connect_timeout_callback :: "unit pending \<Rightarrow> unit pending" where
  "connect_timeout_callback s =
     s\<lparr>timer := Fired,
       promise := reject (Error ''Timeout waiting for connect'') (promise s),
       reject_calls := reject_calls s + 1\<rparr>"

text \<open>The listener for \<^verbatim>\<open>EVENT_CONNECT\<close>: \<^verbatim>\<open>resolve(); clearTimeout(timer)\<close>.\<close>

definition connect_listener :: "unit pending \<Rightarrow> unit pending" where
  "connect_listener s =
     s\<lparr>listener_calls := listener_calls s + 1,
       promise := resolve () (promise s),
       resolve_calls := resolve_calls s + 1,
       timer := clearTimeout (timer s)\<rparr>"

text \<open>
  The executor, with the deadline as a parameter. A client that is connected already
  resolves at once: no timer is armed and no listener registered. Otherwise the timer is
  armed and the listener registered; the value \<^verbatim>\<open>addEventListener\<close> returns is dropped, so
  nothing ever takes this listener out again.
\<close>

definition clientConnected_within :: "nat \<Rightarrow> bool \<Rightarrow> unit pending" where
  "clientConnected_within deadline isConnected =
     (if isConnected
      then \<lparr>promise = Resolved (), timer = Unset, listening = False,
            listener_calls = 0, resolve_calls = 1, reject_calls = 0\<rparr>
      else \<lparr>promise = Pending, timer = Armed deadline, listening = True,
            listener_calls = 0, resolve_calls = 0, reject_calls = 0\<rparr>)"

definition clientConnected :: "bool \<Rightarrow> unit pending" where
  "clientConnected isConnected = clientConnected_within CLIENT_TIMEOUT isConnected"

fun deliver_signal :: "client_signal \<Rightarrow> unit pending \<Rightarrow> unit pending" where
  "deliver_signal Connect s = (if listening s then connect_listener s else s)"

definition clientConnected_run ::
  "bool \<Rightarrow> nat \<Rightarrow> bool \<Rightarrow> (nat \<times> client_signal) list \<Rightarrow> unit pending" where
  "clientConnected_run tie deadline isConnected signals =
     event_loop tie timer connect_timeout_callback deliver_signal signals
       (clientConnected_within deadline isConnected)"

section \<open>Create-ephemeral: \<^verbatim>\<open>createTable\<close>\<close>

text \<open>
  \<^verbatim>\<open>await p\<close> inside an \<^verbatim>\<open>async\<close> function: a rejection of \<open>p\<close> leaves the function
  with that error, a value is handed to the rest of the body.
\<close>

definition await :: "error + 'a \<Rightarrow> ('a \<Rightarrow> error + 'b) \<Rightarrow> error + 'b" where
  "await p rest = (case p of Inl e \<Rightarrow> Inl e | Inr v \<Rightarrow> rest v)"

text \<open>
  A variable definition reported by the session, identified by its name, and the part of
  a command result that \<^verbatim>\<open>createTable\<close> reads: \<^verbatim>\<open>result.changes.created\<close>.
\<close>

datatype variable = Variable string

record command_result =
  created :: "variable list"

text \<open>
  The console API behind \<^verbatim>\<open>new dh.Ide(client)\<close>, as whatever session the caller plugs in:
  consoles \<open>'k\<close>, session states \<open>'s\<close> (running code changes the session), tables \<open>'t\<close>.
\<close>

record ('k, 's, 't) ide =
  createConsole :: "error + 'k"
  startSession :: "'k \<Rightarrow> string \<Rightarrow> error + 's"
  runCode :: "'s \<Rightarrow> string \<Rightarrow> error + command_result \<times> 's"
  getObject :: "'s \<Rightarrow> variable \<Rightarrow> error + 't"

text \<open>
  \<^verbatim>\<open>createTable\<close> of the open-source variant. \<^verbatim>\<open>created[0]\<close> of an empty array is
  \<^verbatim>\<open>undefined\<close>, and the \<^verbatim>\<open>console.log\<close> that follows reads its \<^verbatim>\<open>name\<close>: that throws
  before \<^verbatim>\<open>getObject\<close> is reached.
\<close>

definition createTable :: "('k, 's, 't) ide \<Rightarrow> error + 't" where
  "createTable ide =
     await (createConsole ide) (\<lambda>dhConsole.
     await (startSession ide dhConsole ''python'') (\<lambda>session.
     await (runCode ide session ''from deephaven.TableTools import timeTable'') (\<lambda>(imported, session1).
     await (runCode ide session1 ''t = timeTable(\"00:00:01\").update(\"A=i\")'') (\<lambda>(result, session2).
       case created result of
         [] \<Rightarrow> Inl (TypeError ''Cannot read properties of undefined'')
       | definition # others \<Rightarrow> getObject ide session2 definition))))"

text \<open>\<^verbatim>\<open>createTable\<close> of the enterprise variant: it throws, whatever the client.\<close>

definition createTable_enterprise :: "'c \<Rightarrow> error + 't" where
  "createTable_enterprise client =
     Inl (Error ''Creating table not yet implemented in example, please provide queryName/tableName in the URL params'')"

section \<open>The endpoint\<close>

text \<open>
  A URL object by the components its getters show (\<open>port\<close>, \<open>search\<close> and \<open>hash\<close> are
  empty when the URL has none). \<open>opaque_path\<close> marks a URL without hierarchy, such as
  \<^verbatim>\<open>mailto:x\<close>.
\<close>

record url =
  protocol :: string
  username :: string
  password :: string
  hostname :: string
  port :: string
  pathname :: string
  search :: string
  hash :: string
  opaque_path :: bool

definition special :: "string \<Rightarrow> bool" where
  "special scheme \<longleftrightarrow> scheme \<in> set [''ftp:'', ''file:'', ''http:'', ''https:'', ''ws:'', ''wss:'']"

definition default_port :: "string \<Rightarrow> string" where
  "default_port scheme =
     (if scheme = ''http:'' \<or> scheme = ''ws:'' then ''80''
      else if scheme = ''https:'' \<or> scheme = ''wss:'' then ''443''
      else if scheme = ''ftp:'' then ''21''
      else [])"

text \<open>
  What every URL object satisfies: a special scheme has a hierarchical path, and a port
  equal to the scheme's default is not kept.
\<close>

definition parsed :: "url \<Rightarrow> bool" where
  "parsed u \<longleftrightarrow>
     (special (protocol u) \<longrightarrow> \<not> opaque_path u) \<and>
     (port u = [] \<or> port u \<noteq> default_port (protocol u))"

text \<open>
  \<^verbatim>\<open>new URL("/socket", baseUrl)\<close>: the reference is an absolute path, so scheme,
  credentials, host and port come from the base and its query and fragment are not taken
  over. A base with an opaque path cannot be resolved against. A \<^verbatim>\<open>file:\<close> base whose
  path starts with a drive letter keeps that segment.
\<close>

definition drive_letter :: "string \<Rightarrow> bool" where
  "drive_letter segment =
     (case segment of
        [letter, colon] \<Rightarrow>
          colon = CHR '':'' \<and>
          letter \<in> set ''abcdefghijklmnopqrstuvwxyzABCDEFGHIJKLMNOPQRSTUVWXYZ''
      | _ \<Rightarrow> False)"

definition first_segment :: "string \<Rightarrow> string" where
  "first_segment path = takeWhile (\<lambda>c. c \<noteq> CHR ''/'') (drop 1 path)"

definition new_URL_socket :: "url \<Rightarrow> error + url" where
  "new_URL_socket base =
     (if opaque_path base then Inl (TypeError ''Invalid URL'')
      else Inr (base\<lparr>pathname :=
                       (if protocol base = ''file:'' \<and> drive_letter (first_segment (pathname base))
                        then ''/'' @ first_segment (pathname base) @ ''/socket''
                        else ''/socket''),
                     search := [], hash := []\<rparr>))"

text \<open>
  The \<^verbatim>\<open>protocol\<close> setter. It refuses to move between special and other schemes, to
  touch a \<^verbatim>\<open>file:\<close> URL without a host, and to make a URL with credentials or a port a
  \<^verbatim>\<open>file:\<close> URL; a port that is the new scheme's default is dropped.
\<close>

definition set_protocol :: "string \<Rightarrow> url \<Rightarrow> url" where
  "set_protocol scheme u =
     (if special (protocol u) \<noteq> special scheme then u
      else if scheme = ''file:'' \<and> (username u \<noteq> [] \<or> password u \<noteq> [] \<or> port u \<noteq> []) then u
      else if protocol u = ''file:'' \<and> hostname u = [] then u
      else if port u = default_port scheme then u\<lparr>protocol := scheme, port := []\<rparr>
      else u\<lparr>protocol := scheme\<rparr>)"

text \<open>The first lines of \<^verbatim>\<open>initApp\<close>, from \<^verbatim>\<open>baseUrl\<close> to \<^verbatim>\<open>websocketUrl\<close>.\<close>

definition websocket_url :: "url \<Rightarrow> error + url" where
  "websocket_url baseUrl =
     await (new_URL_socket baseUrl) (\<lambda>websocketUrl.
       Inr (if protocol websocketUrl = ''http:''
            then set_protocol ''ws:'' websocketUrl
            else set_protocol ''wss:'' websocketUrl))"

section \<open>\<^verbatim>\<open>initApp\<close>\<close>

text \<open>
  \<^verbatim>\<open>new URLSearchParams(window.location.search)\<close> as the list of its key-value pairs;
  \<^verbatim>\<open>get\<close> returns the first value of a key, or \<^verbatim>\<open>null\<close>.
\<close>

definition searchParams_get :: "(string \<times> string) list \<Rightarrow> string \<Rightarrow> string option" where
  "searchParams_get searchParams key = map_of searchParams key"

text \<open>What the condition of \<^verbatim>\<open>? :\<close> makes of a \<^verbatim>\<open>string | null\<close>.\<close>

fun truthy :: "string option \<Rightarrow> bool" where
  "truthy None = False"
| "truthy (Some v) = (v \<noteq> [])"

text \<open>The call that \<^verbatim>\<open>queryName && tableName ? loadTable(...) : createTable(...)\<close> makes.\<close>

datatype call = LoadTable string string | CreateTable

definition table_source :: "(string \<times> string) list \<Rightarrow> call" where
  "table_source searchParams =
     (let queryName = searchParams_get searchParams ''queryName'';
          tableName = searchParams_get searchParams ''tableName''
      in if truthy queryName \<and> truthy tableName
         then LoadTable (the queryName) (the tableName)
         else CreateTable)"

text \<open>
  What \<^verbatim>\<open>initApp\<close> meets outside: the base URL (or the error of parsing it), the client
  constructor, the outcome of \<^verbatim>\<open>login\<close>, the search parameters of the location, the
  settled outcome of the promise \<^verbatim>\<open>loadTable\<close> returns, and the model factory.
\<close>

record ('c, 't, 'm) host =
  baseUrl :: "error + url"
  new_Client :: "url \<Rightarrow> 'c"
  login :: "'c \<Rightarrow> error + unit"
  location_search :: "(string \<times> string) list"
  loadTable_outcome :: "'c \<Rightarrow> string \<Rightarrow> string \<Rightarrow> error + 't"
  makeModel :: "'t \<Rightarrow> error + 'm"

text \<open>
  The component's state after \<^verbatim>\<open>initApp\<close>, with the calls to \<^verbatim>\<open>loadTable\<close> and
  \<^verbatim>\<open>createTable\<close> it made on the way.
\<close>

record 'm view =
  model :: "'m option"
  error :: "string option"
  isLoading :: bool
  invoked :: "call list"

text \<open>
  The body of \<^verbatim>\<open>initApp\<close>. The two variants differ in the wait for the connect signal
  (\<open>connected\<close>: the settled outcome of \<^verbatim>\<open>clientConnected(client)\<close>; the enterprise
  variant does not wait) and in \<^verbatim>\<open>createTable\<close>. The \<^verbatim>\<open>try\<close> block yields the new model
  or the error thrown; \<^verbatim>\<open>catch\<close> turns the error into the message shown.
\<close>

definition initApp_with ::
  "('c \<Rightarrow> error + unit) \<Rightarrow> ('c \<Rightarrow> error + 't) \<Rightarrow> ('c, 't, 'm) host \<Rightarrow> 'm view" where
  "initApp_with connected create h =
     (let (tried, calls) =
        (case await (baseUrl h) websocket_url of
           Inl e \<Rightarrow> (Inl e, [])
         | Inr websocketUrl \<Rightarrow>
             let client = new_Client h websocketUrl
             in case await (connected client) (\<lambda>u. login h client) of
                  Inl e \<Rightarrow> (Inl e, [])
                | Inr u \<Rightarrow>
                    let source = table_source (location_search h);
                        table = (case source of
                                   LoadTable queryName tableName \<Rightarrow>
                                     loadTable_outcome h client queryName tableName
                                 | CreateTable \<Rightarrow> create client)
                    in (await table (makeModel h), [source]))
      in case tried of
           Inl e \<Rightarrow> \<lparr>model = None, error = Some (error_text e), isLoading = False, invoked = calls\<rparr>
         | Inr newModel \<Rightarrow> \<lparr>model = Some newModel, error = None, isLoading = False, invoked = calls\<rparr>)"

definition initApp_enterprise :: "('c, 't, 'm) host \<Rightarrow> 'm view" where
  "initApp_enterprise h = initApp_with (\<lambda>client. Inr ()) createTable_enterprise h"

definition initApp ::
  "('c \<Rightarrow> error + unit) \<Rightarrow> ('c \<Rightarrow> ('k, 's, 't) ide) \<Rightarrow> ('c, 't, 'm) host \<Rightarrow> 'm view" where
  "initApp connected Ide h = initApp_with connected (\<lambda>client. createTable (Ide client)) h"

section \<open>Example inputs\<close>

text \<open>
  A session that accepts everything and reports the given variables as created by the
  second command it runs.
\<close>

definition stub_session :: "variable list \<Rightarrow> (unit, nat, string) ide" where
  "stub_session reported =
     \<lparr>createConsole = Inr (),
      startSession = (\<lambda>dhConsole language. Inr 0),
      runCode = (\<lambda>session code.
                   if session = 0 then Inr (\<lparr>created = []\<rparr>, 1) else Inr (\<lparr>created = reported\<rparr>, 2)),
      getObject = (\<lambda>session definition. case definition of Variable v \<Rightarrow> Inr (''table '' @ v))\<rparr>"

text \<open>
  The development server's location with the two search parameters, which is the base URL
  when no API URL is configured.
\<close>

definition localhost :: url where
  "localhost =
     \<lparr>protocol = ''http:'', username = [], password = [], hostname = ''localhost'', port = ''3000'',
      pathname = ''/'', search = ''?queryName=Q1&tableName=T1'', hash = [], opaque_path = False\<rparr>"

definition example_host :: "(string \<times> string) list \<Rightarrow> (nat, string, string) host" where
  "example_host params =
     \<lparr>baseUrl = Inr localhost, new_Client = (\<lambda>endpoint. 0), login = (\<lambda>client. Inr ()),
      location_search = params,
      loadTable_outcome = (\<lambda>client queryName tableName. Inr (queryName @ ''.'' @ tableName)),
      makeModel = (\<lambda>table. Inr (''model of '' @ table))\<rparr>"

section \<open>Properties of \<^verbatim>\<open>loadTable\<close>\<close>

subsection \<open>Scanning\<close>

lemma first_match_find:
  "\<forall>q \<in> set pre. name q \<noteq> queryName \<Longrightarrow> name m = queryName \<Longrightarrow>
   find (\<lambda>query. name query = queryName) (pre @ m # post) = Some m"
  by (induction pre) auto

lemma no_match_find:
  "\<forall>q \<in> set qs. name q \<noteq> queryName \<Longrightarrow> find (\<lambda>query. name query = queryName) qs = None"
  by (induction qs) auto

lemma resolveIfQueryFound_settled:
  "promise s \<noteq> Pending \<Longrightarrow> promise (resolveIfQueryFound qn tn qs s) = promise s"
  by (cases "promise s")
     (simp_all add: resolveIfQueryFound_def call_removeListener_def split: option.splits)

lemma resolveIfQueryFound_listener_calls:
  "listener_calls (resolveIfQueryFound qn tn qs s) = listener_calls s"
  by (simp add: resolveIfQueryFound_def call_removeListener_def split: option.splits)

lemma resolveIfQueryFound_uncaught:
  "removeListener s \<Longrightarrow> uncaught (resolveIfQueryFound qn tn qs s) = uncaught s"
  by (simp add: resolveIfQueryFound_def call_removeListener_def split: option.splits)

subsection \<open>The two shapes are all there is\<close>

lemma resolveIfQueryFound_shape:
  "pending_shape s \<Longrightarrow>
   pending_shape (resolveIfQueryFound qn tn qs s) \<or> done_shape (resolveIfQueryFound qn tn qs s)"
  by (simp add: resolveIfQueryFound_def call_removeListener_def pending_shape_def done_shape_def
      split: option.splits)

lemma listener_shape:
  "pending_shape s \<Longrightarrow> pending_shape (listener qn tn q s) \<or> done_shape (listener qn tn q s)"
  by (simp add: listener_def resolveIfQueryFound_def call_removeListener_def pending_shape_def
      done_shape_def)

lemma deliver_shape:
  assumes "pending_shape s \<or> done_shape s"
  shows "pending_shape (deliver qn tn e s) \<or> done_shape (deliver qn tn e s)"
proof (cases e)
  case (ConfigAdded q)
  from assms show ?thesis
  proof
    assume "pending_shape s"
    then show ?thesis
      using ConfigAdded listener_shape[of s qn tn q] by (simp add: pending_shape_def)
  next
    assume "done_shape s"
    then show ?thesis using ConfigAdded by (simp add: done_shape_def)
  qed
next
  case Unmount
  with assms show ?thesis by (auto simp: pending_shape_def done_shape_def disconnect_def)
qed

lemma timeout_callback_shape: "pending_shape s \<Longrightarrow> done_shape (timeout_callback qn s)"
  by (simp add: timeout_callback_def call_removeListener_def pending_shape_def done_shape_def)

lemma armed_shape: "pending_shape s \<or> done_shape s \<Longrightarrow> armed (timer s) \<Longrightarrow> pending_shape s"
  by (auto simp: done_shape_def)

lemma timer_first_armed: "timer_first tie tm t \<Longrightarrow> armed tm"
  by (cases tm) auto

lemma run_shape:
  "pending_shape s \<or> done_shape s \<Longrightarrow>
   done_shape (event_loop tie timer (timeout_callback qn) (deliver qn tn) es s)"
proof (induction es arbitrary: s)
  case Nil
  show ?case
  proof (cases "armed (timer s)")
    case True
    then have "pending_shape s" using Nil armed_shape by blast
    then show ?thesis using True timeout_callback_shape by simp
  next
    case False
    then have "done_shape s" using Nil by (auto simp: pending_shape_def)
    then show ?thesis using False by simp
  qed
next
  case (Cons te es)
  obtain t e where te: "te = (t, e)" by (cases te)
  let ?s' = "if timer_first tie (timer s) t then timeout_callback qn s else s"
  have "pending_shape ?s' \<or> done_shape ?s'"
  proof (cases "timer_first tie (timer s) t")
    case True
    then have "pending_shape s" using Cons.prems armed_shape timer_first_armed by blast
    then show ?thesis using True timeout_callback_shape by simp
  next
    case False
    then show ?thesis using Cons.prems by simp
  qed
  then have "pending_shape (deliver qn tn e ?s') \<or> done_shape (deliver qn tn e ?s')"
    by (rule deliver_shape)
  then show ?case using Cons.IH te by simp
qed

lemma loadTable_register_shape: "pending_shape loadTable_register"
  by (simp add: loadTable_register_def pending_shape_def)

lemma loadTable_shape:
  "pending_shape (loadTable ks qn tn) \<or> done_shape (loadTable ks qn tn)"
  unfolding loadTable_def loadTable_scan_def
  by (rule resolveIfQueryFound_shape) (rule loadTable_register_shape)

lemma loadTable_run_shape: "done_shape (loadTable_run tie ks qn tn es)"
  unfolding loadTable_run_def by (rule run_shape) (rule loadTable_shape)

subsection \<open>Runs, piece by piece\<close>

text \<open>Once an exit path has run, nothing but disconnects is recorded any more.\<close>

lemma settled_run:
  "\<not> armed (timer s) \<Longrightarrow> \<not> listening s \<Longrightarrow>
   event_loop tie timer (timeout_callback qn) (deliver qn tn) es s =
     s\<lparr>disconnect_calls := disconnect_calls s + length (filter (\<lambda>(t, e). e = Unmount) es)\<rparr>"
proof (induction es arbitrary: s)
  case Nil
  then show ?case by simp
next
  case (Cons te es)
  obtain t e where te: "te = (t, e)" by (cases te)
  have nf: "\<not> timer_first tie (timer s) t" using Cons.prems(1) by (cases "timer s") auto
  show ?case
  proof (cases e)
    case (ConfigAdded q)
    then show ?thesis using Cons nf te by simp
  next
    case Unmount
    then show ?thesis
      using Cons.IH[of "s\<lparr>disconnect_calls := disconnect_calls s + 1\<rparr>"] Cons.prems nf te
      by (simp add: disconnect_def)
  qed
qed

text \<open>Before the deadline, events that do not match leave the attempt pending.\<close>

lemma pending_run:
  assumes "pending_shape s"
      and "\<forall>(t, e) \<in> set before.
             \<not> timer_first tie (Armed 10000) t \<and> (\<forall>q. e = ConfigAdded q \<longrightarrow> name q \<noteq> qn)"
  shows "event_loop tie timer (timeout_callback qn) (deliver qn tn) (before @ after) s =
         event_loop tie timer (timeout_callback qn) (deliver qn tn) after
           (s\<lparr>listener_calls := listener_calls s + length (filter (\<lambda>(t, e). e \<noteq> Unmount) before),
              disconnect_calls := disconnect_calls s + length (filter (\<lambda>(t, e). e = Unmount) before)\<rparr>)"
  using assms
proof (induction before arbitrary: s)
  case Nil
  then show ?case by simp
next
  case (Cons te before)
  obtain t e where te: "te = (t, e)" by (cases te)
  have tm: "timer s = Armed 10000" using Cons.prems(1) by (simp add: pending_shape_def)
  have nf: "\<not> timer_first tie (timer s) t" using Cons.prems(2) te tm by simp
  have rest: "\<forall>(t, e) \<in> set before.
                \<not> timer_first tie (Armed 10000) t \<and> (\<forall>q. e = ConfigAdded q \<longrightarrow> name q \<noteq> qn)"
    using Cons.prems(2) by simp
  show ?case
  proof (cases e)
    case (ConfigAdded q)
    then have nq: "name q \<noteq> qn" using Cons.prems(2) te by simp
    have d: "deliver qn tn e s = s\<lparr>listener_calls := listener_calls s + 1\<rparr>"
      using ConfigAdded nq Cons.prems(1)
      by (simp add: pending_shape_def listener_def resolveIfQueryFound_def)
    have p: "pending_shape (s\<lparr>listener_calls := listener_calls s + 1\<rparr>)"
      using Cons.prems(1) by (simp add: pending_shape_def)
    show ?thesis using Cons.IH[OF p rest] d nf te ConfigAdded by simp
  next
    case Unmount
    have p: "pending_shape (s\<lparr>disconnect_calls := disconnect_calls s + 1\<rparr>)"
      using Cons.prems(1) by (simp add: pending_shape_def)
    show ?thesis using Cons.IH[OF p rest] nf te Unmount by (simp add: disconnect_def)
  qed
qed

text \<open>After the deadline the timer fires before anything else is looked at.\<close>

lemma expired_run:
  assumes "pending_shape s"
      and "\<forall>(t, e) \<in> set after. timer_first tie (Armed 10000) t"
  shows "event_loop tie timer (timeout_callback qn) (deliver qn tn) after s =
         (timeout_callback qn s)
           \<lparr>disconnect_calls := disconnect_calls s + length (filter (\<lambda>(t, e). e = Unmount) after)\<rparr>"
proof (cases after)
  case Nil
  then show ?thesis
    using assms(1) by (simp add: pending_shape_def timeout_callback_def call_removeListener_def)
next
  case (Cons te es)
  obtain t e where te: "te = (t, e)" by (cases te)
  have tm: "timer s = Armed 10000" using assms(1) by (simp add: pending_shape_def)
  have tf: "timer_first tie (timer s) t" using assms(2) Cons te tm by simp
  let ?f = "timeout_callback qn s"
  have f: "\<not> armed (timer ?f)" "\<not> listening ?f" "disconnect_calls ?f = disconnect_calls s"
    using assms(1) by (simp_all add: pending_shape_def timeout_callback_def call_removeListener_def)
  have d: "\<not> armed (timer (deliver qn tn e ?f))" "\<not> listening (deliver qn tn e ?f)"
    using f by (cases e; simp add: disconnect_def)+
  have dv: "deliver qn tn e ?f =
            ?f\<lparr>disconnect_calls := disconnect_calls s + (if e = Unmount then 1 else 0)\<rparr>"
    using f by (cases e) (simp_all add: disconnect_def)
  show ?thesis
    using settled_run[OF d, of tie qn tn es] Cons te tf dv f(3) by (cases e) simp_all
qed

text \<open>Announcements made while the executor is between its two halves.\<close>

lemma fold_deliver_done:
  "\<not> listening s \<Longrightarrow> fold (\<lambda>q. deliver qn tn (ConfigAdded q)) qs s = s"
  by (induction qs) simp_all

lemma fold_deliver_no_match:
  "pending_shape s \<Longrightarrow> \<forall>q \<in> set qs. name q \<noteq> qn \<Longrightarrow>
   fold (\<lambda>q. deliver qn tn (ConfigAdded q)) qs s =
     s\<lparr>listener_calls := listener_calls s + length qs\<rparr>"
proof (induction qs arbitrary: s)
  case Nil
  then show ?case by simp
next
  case (Cons q qs)
  have d: "deliver qn tn (ConfigAdded q) s = s\<lparr>listener_calls := listener_calls s + 1\<rparr>"
    using Cons.prems by (simp add: pending_shape_def listener_def resolveIfQueryFound_def)
  have p: "pending_shape (s\<lparr>listener_calls := listener_calls s + 1\<rparr>)"
    using Cons.prems(1) by (simp add: pending_shape_def)
  show ?case using Cons.IH[OF p] Cons.prems(2) d by simp
qed

lemma fold_deliver_match:
  assumes "pending_shape s" and "find (\<lambda>query. name query = qn) qs = Some m"
  shows "fold (\<lambda>q. deliver qn tn (ConfigAdded q)) qs s =
         s\<lparr>promise := Resolved (GetTable m tn), timer := Cleared, listening := False,
           listener_calls := listener_calls s + length (takeWhile (\<lambda>q. name q \<noteq> qn) qs) + 1,
           resolve_calls := 1, removeListener_calls := 1\<rparr>"
  using assms
proof (induction qs arbitrary: s)
  case Nil
  then show ?case by simp
next
  case (Cons q qs)
  show ?case
  proof (cases "name q = qn")
    case True
    then have m: "m = q" using Cons.prems(2) by simp
    have d: "deliver qn tn (ConfigAdded q) s =
         s\<lparr>promise := Resolved (GetTable q tn), timer := Cleared, listening := False,
           listener_calls := listener_calls s + 1,
           resolve_calls := 1, removeListener_calls := 1\<rparr>"
      using Cons.prems(1) True
      by (simp add: pending_shape_def listener_def resolveIfQueryFound_def call_removeListener_def)
    have "fold (\<lambda>q. deliver qn tn (ConfigAdded q)) (q # qs) s =
          fold (\<lambda>q. deliver qn tn (ConfigAdded q)) qs (deliver qn tn (ConfigAdded q) s)"
      by simp
    also have "\<dots> = deliver qn tn (ConfigAdded q) s"
      by (rule fold_deliver_done) (simp add: d del: deliver.simps)
    finally show ?thesis using True m d by (simp del: deliver.simps)
  next
    case False
    have d: "deliver qn tn (ConfigAdded q) s = s\<lparr>listener_calls := listener_calls s + 1\<rparr>"
      using Cons.prems(1) False by (simp add: pending_shape_def listener_def resolveIfQueryFound_def)
    have p: "pending_shape (s\<lparr>listener_calls := listener_calls s + 1\<rparr>)"
      using Cons.prems(1) by (simp add: pending_shape_def)
    have f: "find (\<lambda>query. name query = qn) qs = Some m" using Cons.prems(2) False by simp
    show ?thesis using Cons.IH[OF p f] d False by simp
  qed
qed

subsection \<open>The claims about \<^verbatim>\<open>loadTable\<close>\<close>

text \<open>
  C1. In every attempt of \<^verbatim>\<open>loadTable\<close> the listener for announced queries is registered
  before the snapshot of the known queries is read and scanned: the executor is the scan
  applied to the state in which the listener is registered already. Whatever the client
  announces between the two, no announcement is missed: while the attempt is unresolved
  each announced query reaches the listener, and the first announced query named
  \<open>queryName\<close> resolves the attempt with the request for its table, whatever the snapshot
  holds and without an uncaught error.
\<close>

theorem listener_registered_before_snapshot_scan:
  "listening loadTable_register \<and>
   loadTable snapshot queryName tableName = loadTable_interleaved queryName tableName [] snapshot \<and>
   uncaught (loadTable_interleaved queryName tableName announced snapshot) = 0 \<and>
   (case find (\<lambda>q. name q = queryName) announced of
      None \<Rightarrow>
        listener_calls (loadTable_interleaved queryName tableName announced snapshot) =
          length announced \<and>
        promise (loadTable_interleaved queryName tableName announced snapshot) =
          promise (loadTable snapshot queryName tableName)
    | Some m \<Rightarrow>
        listener_calls (loadTable_interleaved queryName tableName announced snapshot) =
          length (takeWhile (\<lambda>q. name q \<noteq> queryName) announced) + 1 \<and>
        promise (loadTable_interleaved queryName tableName announced snapshot) =
          Resolved (GetTable m tableName))"
proof -
  let ?gap = "fold (\<lambda>q. deliver queryName tableName (ConfigAdded q)) announced loadTable_register"
  have reg: "pending_shape loadTable_register" by (rule loadTable_register_shape)
  have a: "listening loadTable_register" by (simp add: loadTable_register_def)
  have b: "loadTable snapshot queryName tableName =
           loadTable_interleaved queryName tableName [] snapshot"
    by (simp add: loadTable_def loadTable_interleaved_def)
  show ?thesis
  proof (cases "find (\<lambda>q. name q = queryName) announced")
    case None
    then have nm: "\<forall>q \<in> set announced. name q \<noteq> queryName" by (auto simp: find_None_iff)
    have g: "?gap = loadTable_register\<lparr>listener_calls := length announced\<rparr>"
      using fold_deliver_no_match[OF reg nm, of tableName] by (simp add: loadTable_register_def)
    have c: "uncaught (loadTable_interleaved queryName tableName announced snapshot) = 0"
      unfolding loadTable_interleaved_def loadTable_scan_def g
      by (simp add: resolveIfQueryFound_uncaught loadTable_register_def)
    have d: "listener_calls (loadTable_interleaved queryName tableName announced snapshot) =
             length announced"
      unfolding loadTable_interleaved_def loadTable_scan_def g
      by (simp add: resolveIfQueryFound_listener_calls)
    have e: "promise (loadTable_interleaved queryName tableName announced snapshot) =
             promise (loadTable snapshot queryName tableName)"
      unfolding loadTable_interleaved_def loadTable_scan_def loadTable_def g
      by (simp add: resolveIfQueryFound_def call_removeListener_def loadTable_register_def
          split: option.splits)
    show ?thesis using a b c d e None by simp
  next
    case (Some m)
    have g: "?gap = loadTable_register
               \<lparr>promise := Resolved (GetTable m tableName), timer := Cleared, listening := False,
                listener_calls := length (takeWhile (\<lambda>q. name q \<noteq> queryName) announced) + 1,
                resolve_calls := 1, removeListener_calls := 1\<rparr>"
      using fold_deliver_match[OF reg Some, of tableName] by (simp add: loadTable_register_def)
    have c: "uncaught (loadTable_interleaved queryName tableName announced snapshot) = 0"
      unfolding loadTable_interleaved_def loadTable_scan_def g
      by (simp add: resolveIfQueryFound_uncaught loadTable_register_def)
    have d: "listener_calls (loadTable_interleaved queryName tableName announced snapshot) =
             length (takeWhile (\<lambda>q. name q \<noteq> queryName) announced) + 1"
      unfolding loadTable_interleaved_def loadTable_scan_def g
      by (simp add: resolveIfQueryFound_listener_calls)
    have e: "promise (loadTable_interleaved queryName tableName announced snapshot) =
             Resolved (GetTable m tableName)"
      unfolding loadTable_interleaved_def loadTable_scan_def g
      by (simp add: resolveIfQueryFound_settled)
    show ?thesis using a b c d e Some by simp
  qed
qed

text \<open>
  C1 at an input: \<open>Q0\<close> and then two queries named \<open>Q1\<close> are announced in the gap and the
  snapshot is empty. The listener sees \<open>Q0\<close> and the first \<open>Q1\<close>, which resolves the attempt.
\<close>

theorem listener_registered_before_snapshot_scan_witness:
  "promise (loadTable_interleaved ''Q1'' ''T1'' [Query ''Q0'' 1, Query ''Q1'' 2, Query ''Q1'' 3] []) =
     Resolved (GetTable (Query ''Q1'' 2) ''T1'') \<and>
   listener_calls
     (loadTable_interleaved ''Q1'' ''T1'' [Query ''Q0'' 1, Query ''Q1'' 2, Query ''Q1'' 3] []) = 2"
  using listener_registered_before_snapshot_scan
    [of "[]" "''Q1''" "''T1''" "[Query ''Q0'' 1, Query ''Q1'' 2, Query ''Q1'' 3]"]
  by simp

text \<open>
  C3. An attempt for \<open>queryName\<close> whose snapshot holds no query of that name, and to which
  no query of that name is announced before the timer's task runs at 10 seconds: whatever
  else happens before (\<open>before\<close>) and whatever happens afterwards (\<open>after\<close>, matching
  announcements included), the attempt ends rejected with the error
  \<^verbatim>\<open>Query not found, <queryName>\<close>, \<^verbatim>\<open>reject\<close> was called once and \<^verbatim>\<open>resolve\<close> never, the
  listener was removed by that path, and it ran for the announcements before the deadline
  only. And in every attempt whatsoever exactly one call of \<^verbatim>\<open>resolve\<close> or \<^verbatim>\<open>reject\<close> is
  made.
\<close>

theorem loadTable_not_found:
  assumes "\<forall>q \<in> set knownConfigs. name q \<noteq> queryName"
      and "\<forall>(t, e) \<in> set before.
             (t < 10000 \<or> (t = 10000 \<and> \<not> tie)) \<and> (\<forall>q. e = ConfigAdded q \<longrightarrow> name q \<noteq> queryName)"
      and "\<forall>(t, e) \<in> set after. 10000 < t \<or> (t = 10000 \<and> tie)"
  shows "loadTable_run tie knownConfigs queryName tableName (before @ after) =
           \<lparr>promise = Rejected (Error (''Query not found, '' @ queryName)),
            timer = Fired, listening = False,
            listener_calls = length (filter (\<lambda>(t, e). e \<noteq> Unmount) before),
            resolve_calls = 0, reject_calls = 1,
            removeListener = True, removeListener_calls = 1, uncaught = 0,
            disconnect_calls = length (filter (\<lambda>(t, e). e = Unmount) (before @ after))\<rparr> \<and>
         resolve_calls (loadTable_run tie' knownConfigs' queryName tableName events) +
           reject_calls (loadTable_run tie' knownConfigs' queryName tableName events) = 1"
proof -
  have s0: "loadTable knownConfigs queryName tableName = loadTable_register"
    using no_match_find[OF assms(1)]
    by (simp add: loadTable_def loadTable_scan_def resolveIfQueryFound_def)
  have p0: "pending_shape loadTable_register" by (rule loadTable_register_shape)
  have b: "\<forall>(t, e) \<in> set before. \<not> timer_first tie (Armed 10000) t \<and>
             (\<forall>q. e = ConfigAdded q \<longrightarrow> name q \<noteq> queryName)"
    using assms(2) by auto
  have a: "\<forall>(t, e) \<in> set after. timer_first tie (Armed 10000) t"
    using assms(3) by auto
  let ?mid = "loadTable_register
      \<lparr>listener_calls :=
         listener_calls loadTable_register + length (filter (\<lambda>(t, e). e \<noteq> Unmount) before),
       disconnect_calls :=
         disconnect_calls loadTable_register + length (filter (\<lambda>(t, e). e = Unmount) before)\<rparr>"
  have pm: "pending_shape ?mid" using p0 by (simp add: pending_shape_def)
  have "loadTable_run tie knownConfigs queryName tableName (before @ after) =
        event_loop tie timer (timeout_callback queryName) (deliver queryName tableName) after ?mid"
    unfolding loadTable_run_def s0 by (rule pending_run[OF p0 b])
  also have "\<dots> = (timeout_callback queryName ?mid)
       \<lparr>disconnect_calls := disconnect_calls ?mid + length (filter (\<lambda>(t, e). e = Unmount) after)\<rparr>"
    by (rule expired_run[OF pm a])
  also have "\<dots> = \<lparr>promise = Rejected (Error (''Query not found, '' @ queryName)),
            timer = Fired, listening = False,
            listener_calls = length (filter (\<lambda>(t, e). e \<noteq> Unmount) before),
            resolve_calls = 0, reject_calls = 1,
            removeListener = True, removeListener_calls = 1, uncaught = 0,
            disconnect_calls = length (filter (\<lambda>(t, e). e = Unmount) (before @ after))\<rparr>"
    by (simp add: timeout_callback_def call_removeListener_def loadTable_register_def)
  finally have first: "loadTable_run tie knownConfigs queryName tableName (before @ after) =
           \<lparr>promise = Rejected (Error (''Query not found, '' @ queryName)),
            timer = Fired, listening = False,
            listener_calls = length (filter (\<lambda>(t, e). e \<noteq> Unmount) before),
            resolve_calls = 0, reject_calls = 1,
            removeListener = True, removeListener_calls = 1, uncaught = 0,
            disconnect_calls = length (filter (\<lambda>(t, e). e = Unmount) (before @ after))\<rparr>" .
  have second: "resolve_calls (loadTable_run tie' knownConfigs' queryName tableName events) +
           reject_calls (loadTable_run tie' knownConfigs' queryName tableName events) = 1"
    using loadTable_run_shape[of tie' knownConfigs' queryName tableName events]
    by (simp add: done_shape_def)
  show ?thesis using first second by (rule conjI)
qed

text \<open>
  C3 at an input: the snapshot holds \<open>Q0\<close>, \<open>Q2\<close> is announced after 2 seconds, the view is
  unmounted after 3, and \<open>X\<close> itself is announced after 12 seconds, too late.
\<close>

theorem loadTable_not_found_witness:
  "loadTable_run False [Query ''Q0'' 1] ''X'' ''T1''
      ([(2000, ConfigAdded (Query ''Q2'' 2)), (3000, Unmount)] @
       [(12000, ConfigAdded (Query ''X'' 3))]) =
     \<lparr>promise = Rejected (Error ''Query not found, X''),
      timer = Fired, listening = False, listener_calls = 1,
      resolve_calls = 0, reject_calls = 1,
      removeListener = True, removeListener_calls = 1, uncaught = 0, disconnect_calls = 1\<rparr>"
  using loadTable_not_found
    [of "[Query ''Q0'' 1]" "''X''" "[(2000, ConfigAdded (Query ''Q2'' 2)), (3000, Unmount)]" False
        "[(12000, ConfigAdded (Query ''X'' 3))]" "''T1''"]
  by simp

text \<open>
  C6. Take any attempt and any course of events, unmounts at any time and any number of
  them included. At the end one exit path has run and has disposed of the other: the
  remover was called once, one call of \<^verbatim>\<open>resolve\<close> or \<^verbatim>\<open>reject\<close> was made, nothing was
  thrown. Invoking the disposal once more (the remover, \<^verbatim>\<open>clearTimeout\<close>, or both) or
  disconnecting the client once or twice more throws nothing and leaves the promise, the
  timer, the registration and every callback count as they were.
\<close>

theorem disposal_and_teardown_idempotent:
  "uncaught (loadTable_run tie knownConfigs queryName tableName events) = 0 \<and>
   promise (loadTable_run tie knownConfigs queryName tableName events) \<noteq> Pending \<and>
   resolve_calls (loadTable_run tie knownConfigs queryName tableName events) +
     reject_calls (loadTable_run tie knownConfigs queryName tableName events) = 1 \<and>
   removeListener_calls (loadTable_run tie knownConfigs queryName tableName events) = 1 \<and>
   same_outcome (loadTable_run tie knownConfigs queryName tableName events)
     (call_removeListener (loadTable_run tie knownConfigs queryName tableName events)) \<and>
   same_outcome (loadTable_run tie knownConfigs queryName tableName events)
     (clear_timer (loadTable_run tie knownConfigs queryName tableName events)) \<and>
   same_outcome (loadTable_run tie knownConfigs queryName tableName events)
     (call_removeListener (clear_timer (loadTable_run tie knownConfigs queryName tableName events))) \<and>
   same_outcome (loadTable_run tie knownConfigs queryName tableName events)
     (disconnect (loadTable_run tie knownConfigs queryName tableName events)) \<and>
   same_outcome (loadTable_run tie knownConfigs queryName tableName events)
     (disconnect (disconnect (loadTable_run tie knownConfigs queryName tableName events)))"
proof -
  let ?s = "loadTable_run tie knownConfigs queryName tableName events"
  have d: "done_shape ?s" by (rule loadTable_run_shape)
  have t: "clearTimeout (timer ?s) = timer ?s"
    using d by (cases "timer ?s") (simp_all add: done_shape_def)
  show ?thesis
    using d t
    by (simp add: done_shape_def same_outcome_def call_removeListener_def clear_timer_def
        disconnect_def)
qed

text \<open>
  C6 at an input: the view is unmounted twice while the attempt is pending, the query is
  announced afterwards and resolves it, and the disposal is then invoked again.
\<close>

theorem disposal_and_teardown_idempotent_witness:
  "promise (call_removeListener (clear_timer
      (loadTable_run False [] ''Q1'' ''T1''
         [(100, Unmount), (200, Unmount), (300, ConfigAdded (Query ''Q1'' 1))]))) =
     Resolved (GetTable (Query ''Q1'' 1) ''T1'') \<and>
   uncaught (call_removeListener (clear_timer
      (loadTable_run False [] ''Q1'' ''T1''
         [(100, Unmount), (200, Unmount), (300, ConfigAdded (Query ''Q1'' 1))]))) = 0"
  using disposal_and_teardown_idempotent
    [of False "[]" "''Q1''" "''T1''"
        "[(100, Unmount), (200, Unmount), (300, ConfigAdded (Query ''Q1'' 1))]"]
  by (simp add: same_outcome_def loadTable_run_def loadTable_def loadTable_scan_def
      loadTable_register_def resolveIfQueryFound_def listener_def call_removeListener_def
      disconnect_def clear_timer_def)

text \<open>
  C8. When several queries of a scanned batch are named \<open>queryName\<close>, the first of them in
  the order of the batch is the one the attempt is resolved with: the scan does what it
  does on that query alone, whatever follows it in the batch, and an attempt whose snapshot
  is such a batch stays resolved with it whatever is announced later.
\<close>

theorem first_match_in_iteration_order_wins:
  assumes "\<forall>q \<in> set pre. name q \<noteq> queryName" and "name m = queryName"
  shows "resolveIfQueryFound queryName tableName (pre @ m # post) s =
           resolveIfQueryFound queryName tableName [m] s \<and>
         (promise s = Pending \<longrightarrow>
            promise (resolveIfQueryFound queryName tableName (pre @ m # post) s) =
              Resolved (GetTable m tableName)) \<and>
         promise (loadTable_run tie (pre @ m # post) queryName tableName events) =
           Resolved (GetTable m tableName)"
proof -
  have f: "find (\<lambda>query. name query = queryName) (pre @ m # post) = Some m"
    using assms by (rule first_match_find)
  have a: "resolveIfQueryFound queryName tableName (pre @ m # post) s =
           resolveIfQueryFound queryName tableName [m] s"
    using f assms(2) by (simp add: resolveIfQueryFound_def)
  have b: "promise s = Pending \<longrightarrow>
            promise (resolveIfQueryFound queryName tableName (pre @ m # post) s) =
              Resolved (GetTable m tableName)"
    using f by (simp add: resolveIfQueryFound_def call_removeListener_def)
  let ?s0 = "loadTable (pre @ m # post) queryName tableName"
  have s0: "promise ?s0 = Resolved (GetTable m tableName)" "\<not> armed (timer ?s0)" "\<not> listening ?s0"
    using f by (simp_all add: loadTable_def loadTable_scan_def loadTable_register_def
        resolveIfQueryFound_def call_removeListener_def)
  have c: "promise (loadTable_run tie (pre @ m # post) queryName tableName events) =
           Resolved (GetTable m tableName)"
    unfolding loadTable_run_def using settled_run[OF s0(2,3)] s0(1) by simp
  show ?thesis using a b c by simp
qed

text \<open>
  C8 at an input: the snapshot holds \<open>Q0\<close> and two queries named \<open>Q1\<close>, and a third \<open>Q1\<close> is
  announced later. The attempt is resolved with the first of the snapshot.
\<close>

theorem first_match_in_iteration_order_wins_witness:
  "name (Query ''Q0'' 1) \<noteq> ''Q1'' \<and> name (Query ''Q1'' 2) = ''Q1'' \<and>
   promise (loadTable_run False [Query ''Q0'' 1, Query ''Q1'' 2, Query ''Q1'' 3] ''Q1'' ''T1''
              [(5, ConfigAdded (Query ''Q1'' 4))]) =
     Resolved (GetTable (Query ''Q1'' 2) ''T1'')"
  using first_match_in_iteration_order_wins
    [of "[Query ''Q0'' 1]" "''Q1''" "Query ''Q1'' 2" "''T1''" "[Query ''Q1'' 3]" _ False
        "[(5, ConfigAdded (Query ''Q1'' 4))]"]
  by simp

section \<open>Properties of \<^verbatim>\<open>clientConnected\<close>\<close>

text \<open>Once the promise is settled every further signal only runs the listener again.\<close>

lemma connect_settled_run:
  "\<not> armed (timer s) \<Longrightarrow> promise s \<noteq> Pending \<Longrightarrow> listening s \<Longrightarrow>
   event_loop tie timer connect_timeout_callback deliver_signal es s =
     s\<lparr>listener_calls := listener_calls s + length es,
       resolve_calls := resolve_calls s + length es\<rparr>"
proof (induction es arbitrary: s)
  case Nil
  then show ?case by simp
next
  case (Cons te es)
  obtain t e where te: "te = (t, e)" by (cases te)
  have e: "e = Connect" by (cases e)
  have nf: "\<not> timer_first tie (timer s) t" using Cons.prems(1) by (cases "timer s") auto
  let ?s' = "connect_listener s"
  have s': "?s' = s\<lparr>listener_calls := listener_calls s + 1, resolve_calls := resolve_calls s + 1\<rparr>"
    using Cons.prems(1,2) by (cases "promise s"; cases "timer s") (simp_all add: connect_listener_def)
  have p: "\<not> armed (timer ?s')" "promise ?s' \<noteq> Pending" "listening ?s'"
    using Cons.prems by (simp_all add: s')
  show ?case using Cons.IH[OF p] nf te e Cons.prems(3) by (simp add: s')
qed

lemma connected_already_run:
  "\<not> armed (timer s) \<Longrightarrow> \<not> listening s \<Longrightarrow>
   event_loop tie timer connect_timeout_callback deliver_signal es (s :: unit pending) = s"
proof (induction es arbitrary: s)
  case Nil
  then show ?case by simp
next
  case (Cons te es)
  obtain t e where te: "te = (t, e)" by (cases te)
  have e: "e = Connect" by (cases e)
  have nf: "\<not> timer_first tie (timer s) t" using Cons.prems(1) by (cases "timer s") auto
  show ?case using Cons nf te e by simp
qed

text \<open>
  C2 does not hold as it is worded. With the deadline of 60 seconds and no signal at all
  the wait is rejected and the listener has not run; with the signal arriving one
  millisecond late the wait is rejected in the same way, and then the listener, which is
  still registered, runs all the same. And a signal arriving in the very millisecond of
  the deadline does not make the wait succeed when the host runs the timer's task first.
\<close>

theorem clientConnected_late_signal_counterexample:
  "promise (clientConnected_run False CLIENT_TIMEOUT False []) =
     Rejected (Error ''Timeout waiting for connect'') \<and>
   listener_calls (clientConnected_run False CLIENT_TIMEOUT False []) = 0 \<and>
   promise (clientConnected_run False CLIENT_TIMEOUT False [(60001, Connect)]) =
     Rejected (Error ''Timeout waiting for connect'') \<and>
   listener_calls (clientConnected_run False CLIENT_TIMEOUT False [(60001, Connect)]) = 1 \<and>
   listening (clientConnected_run False CLIENT_TIMEOUT False [(60001, Connect)]) \<and>
   promise (clientConnected_run True CLIENT_TIMEOUT False [(60000, Connect)]) =
     Rejected (Error ''Timeout waiting for connect'')"
  by (simp add: clientConnected_run_def clientConnected_within_def CLIENT_TIMEOUT_def
      connect_timeout_callback_def connect_listener_def)

text \<open>
  C2, amended. For every deadline \<open>D\<close> (the source waits \<open>CLIENT_TIMEOUT\<close>, 60000 ms) and
  a client not yet connected whose connect signal arrives at \<open>t\<close>, followed by any further
  signals: if the signal's task runs before the timer's (\<open>t < D\<close>, or \<open>t = D\<close> and the host
  takes the signal first) the wait succeeds, the timer is cleared and \<^verbatim>\<open>reject\<close> is never
  called; if the timer's task runs first (\<open>t > D\<close>, or \<open>t = D\<close> and the host takes the timer
  first) the wait fails with \<^verbatim>\<open>Timeout waiting for connect\<close>, once. In both cases the
  outcome is final, but the listener is never removed: it runs for the signal and for each
  later one. A client that is connected already resolves at once, whatever arrives.
\<close>

theorem clientConnected_deadline:
  "(t < D \<or> (t = D \<and> \<not> tie) \<longrightarrow>
      promise (clientConnected_run tie D False ((t, Connect) # later)) = Resolved () \<and>
      timer (clientConnected_run tie D False ((t, Connect) # later)) = Cleared \<and>
      reject_calls (clientConnected_run tie D False ((t, Connect) # later)) = 0) \<and>
   (D < t \<or> (t = D \<and> tie) \<longrightarrow>
      promise (clientConnected_run tie D False ((t, Connect) # later)) =
        Rejected (Error ''Timeout waiting for connect'') \<and>
      timer (clientConnected_run tie D False ((t, Connect) # later)) = Fired \<and>
      reject_calls (clientConnected_run tie D False ((t, Connect) # later)) = 1) \<and>
   listening (clientConnected_run tie D False ((t, Connect) # later)) \<and>
   listener_calls (clientConnected_run tie D False ((t, Connect) # later)) = 1 + length later \<and>
   clientConnected_run tie D True signals = clientConnected_within D True \<and>
   promise (clientConnected_within D True) = Resolved () \<and>
   clientConnected isConnected = clientConnected_within 60000 isConnected"
proof -
  let ?s0 = "clientConnected_within D False"
  let ?r = "clientConnected_run tie D False ((t, Connect) # later)"
  have last: "clientConnected isConnected = clientConnected_within 60000 isConnected"
    by (simp add: clientConnected_def CLIENT_TIMEOUT_def)
  have already: "clientConnected_run tie D True signals = clientConnected_within D True"
    unfolding clientConnected_run_def
    by (rule connected_already_run) (simp_all add: clientConnected_within_def)
  have pa: "promise (clientConnected_within D True) = Resolved ()"
    by (simp add: clientConnected_within_def)
  have t0: "timer ?s0 = Armed D" "listening ?s0" by (simp_all add: clientConnected_within_def)
  show ?thesis
  proof (cases "timer_first tie (Armed D) t")
    case True
    let ?s1 = "connect_listener (connect_timeout_callback ?s0)"
    have s1: "\<not> armed (timer ?s1)" "promise ?s1 \<noteq> Pending" "listening ?s1"
      by (simp_all add: connect_listener_def connect_timeout_callback_def clientConnected_within_def)
    have r: "?r = ?s1\<lparr>listener_calls := listener_calls ?s1 + length later,
                      resolve_calls := resolve_calls ?s1 + length later\<rparr>"
      unfolding clientConnected_run_def using connect_settled_run[OF s1, of tie later] True t0
      by (simp add: connect_timeout_callback_def del: timer_first.simps)
    have tD: "D < t \<or> (t = D \<and> tie)" "\<not> (t < D \<or> (t = D \<and> \<not> tie))" using True by auto
    have f: "promise ?r = Rejected (Error ''Timeout waiting for connect'')" "timer ?r = Fired"
      "reject_calls ?r = 1" "listening ?r" "listener_calls ?r = 1 + length later"
      by (simp_all add: r connect_listener_def connect_timeout_callback_def
          clientConnected_within_def)
    show ?thesis using tD f already pa last by blast
  next
    case False
    let ?s1 = "connect_listener ?s0"
    have s1: "\<not> armed (timer ?s1)" "promise ?s1 \<noteq> Pending" "listening ?s1"
      by (simp_all add: connect_listener_def clientConnected_within_def)
    have r: "?r = ?s1\<lparr>listener_calls := listener_calls ?s1 + length later,
                      resolve_calls := resolve_calls ?s1 + length later\<rparr>"
      unfolding clientConnected_run_def using connect_settled_run[OF s1, of tie later] False t0
      by (simp del: timer_first.simps)
    have tD: "\<not> (D < t \<or> (t = D \<and> tie))" "t < D \<or> (t = D \<and> \<not> tie)" using False by auto
    have f: "promise ?r = Resolved ()" "timer ?r = Cleared"
      "reject_calls ?r = 0" "listening ?r" "listener_calls ?r = 1 + length later"
      by (simp_all add: r connect_listener_def clientConnected_within_def)
    show ?thesis using tD f already pa last by blast
  qed
qed

text \<open>The amended C2 at two inputs: one millisecond early, one millisecond late.\<close>

theorem clientConnected_deadline_witness:
  "promise (clientConnected_run False 60000 False [(59999, Connect)]) = Resolved () \<and>
   timer (clientConnected_run False 60000 False [(59999, Connect)]) = Cleared \<and>
   promise (clientConnected_run False 60000 False [(60001, Connect)]) =
     Rejected (Error ''Timeout waiting for connect'') \<and>
   listener_calls (clientConnected_run False 60000 False [(60001, Connect)]) = 1"
  using clientConnected_deadline [of 59999 60000 False "[]"]
    clientConnected_deadline [of 60001 60000 False "[]"]
  by simp

section \<open>Properties of \<^verbatim>\<open>createTable\<close>\<close>

text \<open>
  C4. Run \<^verbatim>\<open>createTable\<close> of the open-source variant against a session that starts, runs
  the import, and runs the command defining \<open>t\<close>. If the result of that command reports
  exactly one created variable, named \<open>t\<close>, the operation returns what \<^verbatim>\<open>getObject\<close>
  fetches for \<open>t\<close>. If it reports none, the operation fails (reading the name of the
  missing definition throws) and returns no table. The source has no error classes of its
  own: a failure of this path is what the specification calls a compute error.
\<close>

theorem createTable_fetches_created_or_fails:
  assumes "createConsole ide = Inr dhConsole"
      and "startSession ide dhConsole ''python'' = Inr session"
      and "runCode ide session ''from deephaven.TableTools import timeTable'' =
             Inr (imported, session1)"
      and "runCode ide session1 ''t = timeTable(\"00:00:01\").update(\"A=i\")'' =
             Inr (result, session2)"
  shows "(created result = [Variable ''t''] \<longrightarrow>
            createTable ide = getObject ide session2 (Variable ''t'')) \<and>
         (created result = [] \<longrightarrow>
            createTable ide = Inl (TypeError ''Cannot read properties of undefined'') \<and>
            (\<forall>table. createTable ide \<noteq> Inr table))"
  using assms by (simp add: createTable_def await_def)

text \<open>C4 at the two stub sessions: one reporting \<open>t\<close>, one reporting nothing.\<close>

theorem createTable_fetches_created_or_fails_witness:
  "createTable (stub_session [Variable ''t'']) = Inr ''table t'' \<and>
   createTable (stub_session []) = Inl (TypeError ''Cannot read properties of undefined'')"
proof -
  have console: "createConsole (stub_session reported) = Inr ()" for reported
    by (simp add: stub_session_def)
  have started: "startSession (stub_session reported) () ''python'' = Inr 0" for reported
    by (simp add: stub_session_def)
  have imported:
    "runCode (stub_session reported) 0 ''from deephaven.TableTools import timeTable'' =
       Inr (\<lparr>created = []\<rparr>, 1)" for reported
    by (simp add: stub_session_def)
  have ran:
    "runCode (stub_session reported) 1 ''t = timeTable(\"00:00:01\").update(\"A=i\")'' =
       Inr (\<lparr>created = reported\<rparr>, 2)" for reported
    by (simp add: stub_session_def)
  have fetched: "getObject (stub_session [Variable ''t'']) 2 (Variable ''t'') = Inr ''table t''"
    by (simp add: stub_session_def)
  have one: "createTable (stub_session [Variable ''t'']) = Inr ''table t''"
    using createTable_fetches_created_or_fails [OF console started imported ran, of "[Variable ''t'']"]
      fetched by simp
  have none: "createTable (stub_session []) =
                Inl (TypeError ''Cannot read properties of undefined'')"
    using createTable_fetches_created_or_fails [OF console started imported ran, of "[]"]
    by simp
  show ?thesis using one none by (rule conjI)
qed

section \<open>Properties of \<^verbatim>\<open>initApp\<close>\<close>

lemma invoked_initApp_with:
  "invoked (initApp_with connected create h) = [] \<or>
   invoked (initApp_with connected create h) = [table_source (location_search h)]"
  by (simp add: initApp_with_def Let_def split: sum.splits prod.splits)

lemma invoked_initApp_with_reached:
  "baseUrl h = Inr b \<Longrightarrow> websocket_url b = Inr w \<Longrightarrow> connected (new_Client h w) = Inr () \<Longrightarrow>
   login h (new_Client h w) = Inr () \<Longrightarrow>
   invoked (initApp_with connected create h) = [table_source (location_search h)]"
  by (simp add: initApp_with_def Let_def await_def split: sum.splits prod.splits)

lemma websocket_url_localhost:
  "websocket_url localhost =
     Inr (localhost\<lparr>protocol := ''ws:'', pathname := ''/socket'', search := []\<rparr>)"
  by (simp add: websocket_url_def await_def new_URL_socket_def set_protocol_def special_def
      default_port_def localhost_def)

text \<open>
  C5 does not hold as it is worded: with \<^verbatim>\<open>?queryName=Q1&tableName=\<close> both parameters are
  present, and yet \<^verbatim>\<open>createTable\<close> is the call made, not \<^verbatim>\<open>loadTable\<close>.
\<close>

theorem both_present_yet_created_counterexample:
  "searchParams_get [(''queryName'', ''Q1''), (''tableName'', [])] ''queryName'' = Some ''Q1'' \<and>
   searchParams_get [(''queryName'', ''Q1''), (''tableName'', [])] ''tableName'' = Some [] \<and>
   table_source [(''queryName'', ''Q1''), (''tableName'', [])] = CreateTable \<and>
   table_source [(''queryName'', ''Q1''), (''tableName'', [])] \<noteq> LoadTable ''Q1'' []"
  by (simp add: table_source_def searchParams_get_def)

text \<open>
  C5, amended. For every combination of the two parameters: when both are present and not
  empty, the flow calls \<^verbatim>\<open>loadTable\<close> with them as \<open>queryName\<close> and \<open>tableName\<close>; when either
  is absent or empty, it calls \<^verbatim>\<open>createTable\<close>. In both variants of \<^verbatim>\<open>initApp\<close> the call
  selected is the only one of the two ever made, and it is made whenever the endpoint is
  derived and the connection and the login succeed.
\<close>

theorem strategy_selection:
  "table_source (location_search h) =
     (case (searchParams_get (location_search h) ''queryName'',
            searchParams_get (location_search h) ''tableName'') of
        (Some queryName, Some tableName) \<Rightarrow>
          if queryName \<noteq> [] \<and> tableName \<noteq> [] then LoadTable queryName tableName else CreateTable
      | _ \<Rightarrow> CreateTable) \<and>
   set (invoked (initApp_with connected create h)) \<subseteq> {table_source (location_search h)} \<and>
   (\<forall>b w. baseUrl h = Inr b \<and> websocket_url b = Inr w \<and> connected (new_Client h w) = Inr () \<and>
          login h (new_Client h w) = Inr () \<longrightarrow>
      invoked (initApp_with connected create h) = [table_source (location_search h)])"
proof -
  have r: "\<forall>b w. baseUrl h = Inr b \<and> websocket_url b = Inr w \<and>
                 connected (new_Client h w) = Inr () \<and> login h (new_Client h w) = Inr () \<longrightarrow>
      invoked (initApp_with connected create h) = [table_source (location_search h)]"
    using invoked_initApp_with_reached by blast
  have i: "set (invoked (initApp_with connected create h)) \<subseteq> {table_source (location_search h)}"
    using invoked_initApp_with[of connected create h] by auto
  have s: "table_source (location_search h) =
     (case (searchParams_get (location_search h) ''queryName'',
            searchParams_get (location_search h) ''tableName'') of
        (Some queryName, Some tableName) \<Rightarrow>
          if queryName \<noteq> [] \<and> tableName \<noteq> [] then LoadTable queryName tableName else CreateTable
      | _ \<Rightarrow> CreateTable)"
    by (auto simp: table_source_def Let_def split: option.splits)
  show ?thesis using r i s by blast
qed

text \<open>
  The amended C5 at two inputs: both parameters given, in the enterprise variant, and
  \<open>queryName\<close> missing, in the open-source variant with a session that reports \<open>t\<close>.
\<close>

theorem strategy_selection_witness:
  "invoked (initApp_enterprise
              (example_host [(''queryName'', ''Q1''), (''tableName'', ''T1'')])) =
     [LoadTable ''Q1'' ''T1''] \<and>
   invoked (initApp (\<lambda>client. Inr ()) (\<lambda>client. stub_session [Variable ''t''])
              (example_host [(''tableName'', ''T1'')])) = [CreateTable]"
  using strategy_selection
      [of "example_host [(''queryName'', ''Q1''), (''tableName'', ''T1'')]" "\<lambda>client. Inr ()"
          createTable_enterprise]
    strategy_selection
      [of "example_host [(''tableName'', ''T1'')]" "\<lambda>client. Inr ()"
          "\<lambda>client. createTable (stub_session [Variable ''t''])"]
    websocket_url_localhost
  by (simp add: example_host_def searchParams_get_def initApp_enterprise_def initApp_def)

text \<open>
  C10. A parameter that is present with the empty string as its value counts as absent:
  if \<open>queryName\<close> or \<open>tableName\<close> is there but empty, the call made is \<^verbatim>\<open>createTable\<close>,
  whatever the other parameter is, because the condition tests the values for truthiness.
\<close>

theorem empty_parameter_counts_as_absent:
  assumes "searchParams_get searchParams ''queryName'' = Some [] \<or>
           searchParams_get searchParams ''tableName'' = Some []"
  shows "table_source searchParams = CreateTable"
  using assms by (auto simp: table_source_def Let_def)

text \<open>C10 at the input \<^verbatim>\<open>?queryName=&tableName=T1\<close>.\<close>

theorem empty_parameter_counts_as_absent_witness:
  "searchParams_get [(''queryName'', []), (''tableName'', ''T1'')] ''queryName'' = Some [] \<and>
   searchParams_get [(''queryName'', []), (''tableName'', ''T1'')] ''tableName'' = Some ''T1'' \<and>
   table_source [(''queryName'', []), (''tableName'', ''T1'')] = CreateTable"
  using empty_parameter_counts_as_absent [of "[(''queryName'', []), (''tableName'', ''T1'')]"]
  by (simp add: searchParams_get_def)

text \<open>
  C9. In the enterprise variant \<^verbatim>\<open>createTable\<close> fails for every client with the error that
  creating a table is not implemented, and never yields a table. So whenever \<open>queryName\<close>
  or \<open>tableName\<close> is absent (or empty), \<^verbatim>\<open>initApp\<close> ends with no model, an error message
  set and the loading flag off; and if the flow gets as far as the choice, the call made
  is \<^verbatim>\<open>createTable\<close> and the message shown is that error.
\<close>

theorem enterprise_createTable_not_implemented:
  "(createTable_enterprise client :: error + 't) =
     Inl (Error ''Creating table not yet implemented in example, please provide queryName/tableName in the URL params'') \<and>
   (\<not> (truthy (searchParams_get (location_search h) ''queryName'') \<and>
        truthy (searchParams_get (location_search h) ''tableName'')) \<longrightarrow>
      model (initApp_enterprise h) = None \<and>
      error (initApp_enterprise h) \<noteq> None \<and>
      isLoading (initApp_enterprise h) = False \<and>
      (\<forall>b w. baseUrl h = Inr b \<and> websocket_url b = Inr w \<and> login h (new_Client h w) = Inr () \<longrightarrow>
         invoked (initApp_enterprise h) = [CreateTable] \<and>
         error (initApp_enterprise h) =
           Some ''Error: Creating table not yet implemented in example, please provide queryName/tableName in the URL params''))"
proof -
  have a: "(createTable_enterprise client :: error + 't) =
     Inl (Error ''Creating table not yet implemented in example, please provide queryName/tableName in the URL params'')"
    by (simp add: createTable_enterprise_def)
  have b: "\<not> (truthy (searchParams_get (location_search h) ''queryName'') \<and>
        truthy (searchParams_get (location_search h) ''tableName'')) \<longrightarrow>
      model (initApp_enterprise h) = None \<and>
      error (initApp_enterprise h) \<noteq> None \<and>
      isLoading (initApp_enterprise h) = False"
    by (simp add: initApp_enterprise_def initApp_with_def table_source_def
        createTable_enterprise_def await_def Let_def split: sum.splits prod.splits)
  have c: "\<not> (truthy (searchParams_get (location_search h) ''queryName'') \<and>
        truthy (searchParams_get (location_search h) ''tableName'')) \<longrightarrow>
      (\<forall>b w. baseUrl h = Inr b \<and> websocket_url b = Inr w \<and> login h (new_Client h w) = Inr () \<longrightarrow>
         invoked (initApp_enterprise h) = [CreateTable] \<and>
         error (initApp_enterprise h) =
           Some ''Error: Creating table not yet implemented in example, please provide queryName/tableName in the URL params'')"
    by (simp add: initApp_enterprise_def initApp_with_def table_source_def
        createTable_enterprise_def await_def Let_def split: sum.splits prod.splits)
  show ?thesis using a b c by blast
qed

text \<open>C9 at an input: only \<open>tableName\<close> is given.\<close>

theorem enterprise_createTable_not_implemented_witness:
  "searchParams_get (location_search (example_host [(''tableName'', ''T1'')])) ''queryName'' = None \<and>
   model (initApp_enterprise (example_host [(''tableName'', ''T1'')])) = None \<and>
   error (initApp_enterprise (example_host [(''tableName'', ''T1'')])) =
     Some ''Error: Creating table not yet implemented in example, please provide queryName/tableName in the URL params''"
proof -
  let ?h = "example_host [(''tableName'', ''T1'')]"
  let ?w = "localhost\<lparr>protocol := ''ws:'', pathname := ''/socket'', search := []\<rparr>"
  have absent: "searchParams_get (location_search ?h) ''queryName'' = None"
    by (simp add: example_host_def searchParams_get_def)
  have reach: "baseUrl ?h = Inr localhost \<and> websocket_url localhost = Inr ?w \<and>
               login ?h (new_Client ?h ?w) = Inr ()"
    using websocket_url_localhost by (simp add: example_host_def)
  have "\<not> (truthy (searchParams_get (location_search ?h) ''queryName'') \<and>
           truthy (searchParams_get (location_search ?h) ''tableName''))"
    using absent by simp
  then show ?thesis
    using enterprise_createTable_not_implemented [of "0::nat" ?h] absent reach by blast
qed

section \<open>Properties of the endpoint\<close>

text \<open>
  C7 does not hold as it is worded: the base URL
  \<^verbatim>\<open>http://localhost:3000/?queryName=Q1&tableName=T1\<close> yields the endpoint
  \<^verbatim>\<open>ws://localhost:3000/socket\<close>, which is not the base with its path replaced and its
  scheme mapped: the query string is gone as well.
\<close>

theorem endpoint_drops_query_counterexample:
  "parsed localhost \<and> protocol localhost = ''http:'' \<and>
   websocket_url localhost =
     Inr \<lparr>protocol = ''ws:'', username = [], password = [], hostname = ''localhost'',
          port = ''3000'', pathname = ''/socket'', search = [], hash = [], opaque_path = False\<rparr> \<and>
   websocket_url localhost \<noteq> Inr (localhost\<lparr>protocol := ''ws:'', pathname := ''/socket''\<rparr>)"
  by (simp add: websocket_url_def await_def new_URL_socket_def set_protocol_def special_def
      default_port_def localhost_def parsed_def)

text \<open>
  C7, amended. For every base URL with the scheme \<open>http\<close> or \<open>https\<close>, the endpoint is the
  base URL with its path replaced by \<^verbatim>\<open>/socket\<close>, its query string and fragment removed,
  and its scheme mapped, \<open>http\<close> to \<open>ws\<close> and \<open>https\<close> to \<open>wss\<close>; credentials, host and port are
  those of the base. The endpoint is a function of the base URL and of nothing else.
\<close>

theorem websocket_endpoint:
  assumes "parsed base"
      and "protocol base = ''http:'' \<or> protocol base = ''https:''"
  shows "websocket_url base =
           Inr (base\<lparr>protocol := (if protocol base = ''http:'' then ''ws:'' else ''wss:''),
                      pathname := ''/socket'', search := [], hash := []\<rparr>)"
proof -
  have sp: "special (protocol base)" using assms(2) by (auto simp: special_def)
  then have op: "\<not> opaque_path base" using assms(1) by (simp add: parsed_def)
  have pt: "port base = [] \<or> port base \<noteq> default_port (protocol base)"
    using assms(1) by (simp add: parsed_def)
  from assms(2) show ?thesis
  proof
    assume h: "protocol base = ''http:''"
    then have "port base \<noteq> ''80''" using pt by (auto simp: default_port_def)
    then show ?thesis using h op
      by (simp add: websocket_url_def await_def new_URL_socket_def set_protocol_def special_def
          default_port_def)
  next
    assume h: "protocol base = ''https:''"
    then have "port base \<noteq> ''443''" using pt by (auto simp: default_port_def)
    then show ?thesis using h op
      by (simp add: websocket_url_def await_def new_URL_socket_def set_protocol_def special_def
          default_port_def)
  qed
qed

text \<open>The amended C7 at an input: \<^verbatim>\<open>https://localhost/?queryName=Q1&tableName=T1#top\<close>.\<close>

theorem websocket_endpoint_witness:
  "parsed (localhost\<lparr>protocol := ''https:'', port := [], hash := ''#top''\<rparr>) \<and>
   websocket_url (localhost\<lparr>protocol := ''https:'', port := [], hash := ''#top''\<rparr>) =
     Inr \<lparr>protocol = ''wss:'', username = [], password = [], hostname = ''localhost'', port = [],
          pathname = ''/socket'', search = [], hash = [], opaque_path = False\<rparr>"
  using websocket_endpoint [of "localhost\<lparr>protocol := ''https:'', port := [], hash := ''#top''\<rparr>"]
  by (simp add: localhost_def parsed_def special_def default_port_def)

end
